theory Spec2Isabelle
  imports Complex_Main "HOL-Library.Word"
begin

section \<open>Pharmacy client controller (drug\_delivering\_code.py)\<close>

subsection \<open>Exceptions, JSON values, effects\<close>

text \<open>
  The Python exceptions the controller can meet. \<open>KeyboardInterrupt\<close>, \<open>SystemExit\<close>,
  \<open>GeneratorExit\<close> and \<open>CancelledError\<close> (\<open>asyncio.CancelledError\<close>, raised at an
  \<open>await\<close> when the task is cancelled; outside \<open>Exception\<close> since Python 3.8) derive
  from \<open>BaseException\<close> only, and \<open>OtherBaseException\<close> stands for any further class
  that does. Every other class below is a subclass of \<open>Exception\<close>. \<open>StructError\<close> is
  \<open>struct.error\<close>; \<open>LibraryError\<close> stands for any \<open>Exception\<close> subclass raised by a
  collaborator (OpenCV, the face library, aiohttp).
\<close>

datatype exc =
    KeyboardInterrupt | SystemExit | GeneratorExit | CancelledError
  | OtherBaseException string
  | NameError | KeyError | TypeError | AttributeError | IndexError
  | ValueError | AssertionError | StructError | LibraryError string

text \<open>\<open>isinstance(e, Exception)\<close>: what an \<open>except Exception\<close> clause catches.\<close>

fun is_Exception :: "exc \<Rightarrow> bool" where
  "is_Exception KeyboardInterrupt = False"
| "is_Exception SystemExit = False"
| "is_Exception GeneratorExit = False"
| "is_Exception CancelledError = False"
| "is_Exception (OtherBaseException _) = False"
| "is_Exception _ = True"

text \<open>
  What \<open>response.json()\<close> can produce: \<open>None\<close>, a bool, a number, a string, a list
  or a dict (items in insertion order; a key is looked up with \<open>map_of\<close>).
\<close>

datatype json =
    JNone | JBool bool | JNum real | JStr string
  | JList "json list" | JDict "(string \<times> json) list"

text \<open>Python truthiness of a value, as tested by \<open>if x\<close> and \<open>and\<close>.\<close>

fun truthy :: "json \<Rightarrow> bool" where
  "truthy JNone = False"
| "truthy (JBool b) = b"
| "truthy (JNum x) = (x \<noteq> 0)"
| "truthy (JStr s) = (s \<noteq> [])"
| "truthy (JList xs) = (xs \<noteq> [])"
| "truthy (JDict kvs) = (kvs \<noteq> [])"

text \<open>\<open>x[key]\<close> with a string key: only a dict accepts it, and a missing key raises.\<close>

fun subscript :: "json \<Rightarrow> string \<Rightarrow> exc + json" where
  "subscript (JDict kvs) k = (case map_of kvs k of None \<Rightarrow> Inl KeyError | Some v \<Rightarrow> Inr v)"
| "subscript _ k = Inl TypeError"

text \<open>\<open>x.get(key, None)\<close>: only a dict has the method.\<close>

fun dict_get :: "json \<Rightarrow> string \<Rightarrow> exc + json" where
  "dict_get (JDict kvs) k = (case map_of kvs k of None \<Rightarrow> Inr JNone | Some v \<Rightarrow> Inr v)"
| "dict_get _ k = Inl AttributeError"

text \<open>
  The items a \<open>for\<close> loop draws from a value: the elements of a list, the one-character
  strings of a string, the keys of a dict; anything else is not iterable.
\<close>

fun py_iter :: "json \<Rightarrow> exc + json list" where
  "py_iter (JList xs) = Inr xs"
| "py_iter (JStr s) = Inr (map (\<lambda>c. JStr [c]) s)"
| "py_iter (JDict kvs) = Inr (map (\<lambda>kv. JStr (fst kv)) kvs)"
| "py_iter _ = Inl TypeError"

datatype level = DEBUG | INFO | WARNING | ERROR

text \<open>
  The observable effects of the controller, in the order they happen. \<open>Call_dispense\<close>
  marks an invocation of \<open>dispense\<close> (one dispense attempt); \<open>Create_task\<close> marks
  \<open>asyncio.create_task(report_dispensed(auth_token, drugs_dispensed))\<close> with the token
  and the content of the list at that moment.
\<close>

datatype event =
    Sleep nat
  | Log level string
  | Log_exc level exc
  | Utc_now
  | Video_capture
  | Capture_read
  | Cvt_color
  | Face_locations
  | Face_encodings
  | Session_open
  | Http_get string
  | Create_task json "string list"
  | Call_dispense string

type_synonym 'a res = "(exc + 'a) \<times> event list"

definition ret :: "'a \<Rightarrow> 'a res" where
  "ret a = (Inr a, [])"

definition raise :: "exc \<Rightarrow> 'a res" where
  "raise e = (Inl e, [])"

definition emit :: "event \<Rightarrow> unit res" where
  "emit ev = (Inr (), [ev])"

definition lift :: "exc + 'a \<Rightarrow> 'a res" where
  "lift r = (r, [])"

text \<open>A call that only succeeds or raises.\<close>

definition may_raise :: "exc option \<Rightarrow> unit res" where
  "may_raise r = (case r of None \<Rightarrow> (Inr (), []) | Some e \<Rightarrow> (Inl e, []))"

text \<open>Sequencing: an exception ends the computation, the effects so far stay.\<close>

definition bind :: "'a res \<Rightarrow> ('a \<Rightarrow> 'b res) \<Rightarrow> 'b res" where
  "bind m f =
     (case m of
        (Inl e, t) \<Rightarrow> (Inl e, t)
      | (Inr a, t) \<Rightarrow> (case f a of (r, t') \<Rightarrow> (r, t @ t')))"

subsection \<open>Module constants\<close>

definition api_endpoint :: string where
  "api_endpoint = ''https://example.com/arka''"

definition api_version :: string where
  "api_version = ''0''"

text \<open>\<open>din_to_motor\<close>, the local drug database: a dict from DIN to motor, both strings.\<close>

type_synonym motor_map = "string \<rightharpoonup> string"

subsection \<open>Rendering of log messages\<close>

fun str_nat :: "nat \<Rightarrow> string" where
  "str_nat n =
     (if n < 10 then [char_of (n + 48)]
      else str_nat (n div 10) @ [char_of (n mod 10 + 48)])"

type_synonym byte = "8 word"

definition hex_digit :: "nat \<Rightarrow> char" where
  "hex_digit n = (if n < 10 then char_of (n + 48) else char_of (n + 87))"

definition bytes_hex :: "byte list \<Rightarrow> string" where
  "bytes_hex bs = concat (map (\<lambda>b. [hex_digit (unat b div 16), hex_digit (unat b mod 16)]) bs)"

subsection \<open>dispense\<close>

text \<open>
  \<open>dispense(din)\<close>: the motor is looked up with \<open>din_to_motor[din]\<close>, which raises
  \<open>KeyError\<close> for an unknown DIN; nothing is driven, and the function returns \<open>False\<close>.
\<close>

definition dispense :: "motor_map \<Rightarrow> string \<Rightarrow> exc + bool" where
  "dispense din_to_motor din =
     (case din_to_motor din of None \<Rightarrow> Inl KeyError | Some motor \<Rightarrow> Inr False)"

subsection \<open>float64\<close>

text \<open>
  The entries of a fingerprint are numpy float64 values: a finite number, an infinity or
  NaN. \<open>Finite r\<close> carries the real number the float denotes (the sign of zero is not
  kept).
\<close>

datatype f64 = Finite real | PosInf | NegInf | NaN

text \<open>
  \<open>x > c\<close> and \<open>x < c\<close> for a float \<open>x\<close> and the integer constant \<open>c\<close>: exact on
  finite values, and false whenever \<open>x\<close> is NaN.
\<close>

fun f64_gt :: "f64 \<Rightarrow> real \<Rightarrow> bool" where
  "f64_gt (Finite r) c = (c < r)"
| "f64_gt PosInf c = True"
| "f64_gt NegInf c = False"
| "f64_gt NaN c = False"

fun f64_lt :: "f64 \<Rightarrow> real \<Rightarrow> bool" where
  "f64_lt (Finite r) c = (r < c)"
| "f64_lt PosInf c = False"
| "f64_lt NegInf c = True"
| "f64_lt NaN c = False"

text \<open>
  Rounding of a real number to float64, to nearest with ties to even, as every IEEE 754
  arithmetic operation rounds its exact result. The floats around \<open>y\<close> are the multiples
  of \<open>f64_ulp y\<close>, which is \<open>2 ^ (e - 52)\<close> in the binade \<open>2 ^ e \<le> \<bar>y\<bar> < 2 ^ (e + 1)\<close>,
  and \<open>2 ^ - 1074\<close> below \<open>2 ^ - 1022\<close> (the subnormal range). A result of magnitude
  \<open>2 ^ 1024\<close> or more is an infinity.
\<close>

definition round_half_even :: "real \<Rightarrow> int" where
  "round_half_even r =
     (let f = \<lfloor>r\<rfloor>; d = r - of_int f
      in if d < 1 / 2 then f else if 1 / 2 < d then f + 1
         else if even f then f else f + 1)"

definition f64_exponent :: "real \<Rightarrow> int" where
  "f64_exponent y = max (- 1022) \<lfloor>log 2 \<bar>y\<bar>\<rfloor>"

definition f64_ulp :: "real \<Rightarrow> real" where
  "f64_ulp y = 2 powr (of_int (f64_exponent y) - 52)"

definition f64_round :: "real \<Rightarrow> f64" where
  "f64_round y =
     (if y = 0 then Finite 0
      else let r = of_int (round_half_even (y / f64_ulp y)) * f64_ulp y
           in if 2 ^ 1024 \<le> r then PosInf
              else if r \<le> - (2 ^ 1024) then NegInf
              else Finite r)"

text \<open>\<open>x * c\<close> for a float \<open>x\<close> and a finite float \<open>c\<close>: the exact product, rounded.\<close>

fun f64_times :: "f64 \<Rightarrow> real \<Rightarrow> f64" where
  "f64_times (Finite r) c = f64_round (r * c)"
| "f64_times PosInf c = (if 0 < c then PosInf else if c < 0 then NegInf else NaN)"
| "f64_times NegInf c = (if 0 < c then NegInf else if c < 0 then PosInf else NaN)"
| "f64_times NaN c = NaN"

subsection \<open>The world of one iteration\<close>

text \<open>
  What the collaborators answer during one iteration of the main loop: either the
  exception the call raises or its result. Pixel data is not modelled: of a frame only
  the flag of \<open>capture.read()\<close> and the number of face boxes matter to the controller.
  A fingerprint is the vector of the face library, a list of float64 values. Cancellation
  of the task reaches the iteration as \<open>CancelledError\<close> raised by one of the awaited
  network calls; the two sleeps are taken to complete.
\<close>

record world =
  utc_now :: string
  capture_read :: "exc + bool"
  cvt_color :: "exc option"
  face_locations :: "exc + nat"
  face_encodings :: "exc + f64 list list"
  session_open :: "exc option"
  session_get :: "exc option"
  response_json :: "exc + json"
  report_session_open :: "exc option"
  report_session_get :: "exc option"

subsection \<open>report\_dispensed\<close>

text \<open>
  The timestamp is taken, then the coroutine sleeps 30 seconds, and only then looks at
  the list. With a non-empty list it opens a session and enters the \<open>while\<close> loop, whose
  first pass cannot finish: \<open>session.get\<close> raises, or \<open>response.json()\<close>, which is not
  awaited, yields a coroutine object and \<open>data_response['version']\<close> raises
  \<open>TypeError\<close>. So the loop is one pass that always raises.
\<close>

definition report_dispensed :: "world \<Rightarrow> json \<Rightarrow> string list \<Rightarrow> bool res" where
  "report_dispensed w auth_token drugs_dispensed =
     bind (emit Utc_now) (\<lambda>_.
     bind (emit (Sleep 30)) (\<lambda>_.
     if drugs_dispensed = [] then
       bind (emit (Log INFO ''No drug dispensing to report'')) (\<lambda>_. ret True)
     else
       bind (emit (Log DEBUG ''Now trying to report drug dispensed'')) (\<lambda>_.
       bind (emit Session_open) (\<lambda>_.
       bind (may_raise (report_session_open w)) (\<lambda>_.
       bind (emit (Log DEBUG ''HTTP session started from report_dispensed'')) (\<lambda>_.
       bind (emit (Http_get (api_endpoint @ ''/user/pharmacy_done''))) (\<lambda>_.
       bind (may_raise (report_session_get w)) (\<lambda>_.
       raise TypeError))))))))"

subsection \<open>pack\_fingerprint\<close>

text \<open>
  \<open>1 - 2 ** -53\<close>, and the same times \<open>2 ** 15\<close>. Both are floats: the subtraction and
  the multiplication by a power of two are exact.
\<close>

definition scale0 :: real where
  "scale0 = 1 - 1 / 2 ^ 53"

definition scale :: real where
  "scale = scale0 * 2 ^ 15"

text \<open>\<open>np.floor\<close> keeps the float type, and passes infinities and NaN on.\<close>

fun np_floor :: "f64 \<Rightarrow> f64" where
  "np_floor (Finite y) = Finite (of_int \<lfloor>y\<rfloor>)"
| "np_floor x = x"

text \<open>
  The cast to \<open>np.int16\<close>: the fraction is dropped (towards zero) and the integer is
  taken modulo \<open>2 ^ 16\<close>. The cast of NaN or of an infinity is left open by C; numpy
  stores 0 on the usual platforms (and warns).
\<close>

fun astype_int16 :: "f64 \<Rightarrow> 16 word" where
  "astype_int16 (Finite y) = word_of_int (if 0 \<le> y then \<lfloor>y\<rfloor> else \<lceil>y\<rceil>)"
| "astype_int16 x = 0"

text \<open>Format \<open>h\<close>, little endian: the low byte, then the high byte.\<close>

definition pack_h :: "16 word \<Rightarrow> byte list" where
  "pack_h v = [ucast v, ucast (drop_bit 8 v)]"

text \<open>\<open>struct.pack('<128h', *values)\<close> wants exactly 128 values.\<close>

definition struct_pack_128h :: "16 word list \<Rightarrow> exc + byte list" where
  "struct_pack_128h vs =
     (if length vs \<noteq> 128 then Inl StructError else Inr (concat (map pack_h vs)))"

definition pack_fingerprint :: "f64 list \<Rightarrow> exc + byte list" where
  "pack_fingerprint fingerprint =
     (if \<exists>x \<in> set fingerprint. f64_gt x 1 then Inl ValueError
      else if \<exists>x \<in> set fingerprint. f64_lt x (- 1) then Inl ValueError
      else if scale0 \<ge> 1 then Inl AssertionError
      else struct_pack_128h
             (map (\<lambda>x. astype_int16 (np_floor (f64_times x scale))) fingerprint))"

text \<open>
  Modelled from the spec: \<open>unpack\<close>, which the source does not contain (no definition,
  no caller, no test). The spec gives it as the inverse of \<open>pack\<close>, with the scale
  \<open>(1 - 1 / 2 ^ 53) * 2 ^ 15\<close> of its data model: the bytes are read back as little-endian
  signed 16-bit integers, in order, and each is divided by that scale.
\<close>

definition spec_scale :: real where
  "spec_scale = (1 - 1 / 2 ^ 53) * 2 ^ 15"

definition unpack_h :: "byte \<Rightarrow> byte \<Rightarrow> int" where
  "unpack_h lo hi = sint (word_cat hi lo :: 16 word)"

fun unpack :: "byte list \<Rightarrow> real list" where
  "unpack (lo # hi # rest) = (of_int (unpack_h lo hi) / spec_scale) # unpack rest"
| "unpack _ = []"

subsection \<open>main\_step\<close>

text \<open>
  Lines 130 to 169: sleep, capture, face detection, fingerprint, packing. \<open>None\<close> is
  one of the two early \<open>return\<close>s (capture failed, no face).
\<close>

definition capture_and_encode :: "world \<Rightarrow> byte list option res" where
  "capture_and_encode w =
     bind (emit (Sleep 1)) (\<lambda>_.
     bind (emit (Log DEBUG ''Now trying to capture an image'')) (\<lambda>_.
     bind (emit Capture_read) (\<lambda>_.
     bind (lift (capture_read w)) (\<lambda>succeeded.
     bind (emit (Log DEBUG (''Image capture completed, and it ''
             @ (if succeeded then ''succeeded'' else ''failed'')))) (\<lambda>_.
     if \<not> succeeded then ret None
     else
       bind (emit Cvt_color) (\<lambda>_.
       bind (may_raise (cvt_color w)) (\<lambda>_.
       bind (emit (Log DEBUG ''Image colour channels changed to RGB'')) (\<lambda>_.
       bind (emit Face_locations) (\<lambda>_.
       bind (lift (face_locations w)) (\<lambda>num_faces.
       bind (emit (Log DEBUG (''Found '' @ str_nat num_faces @ ''faces in the image''))) (\<lambda>_.
       if num_faces = 0 then ret None
       else
         bind (emit Face_encodings) (\<lambda>_.
         bind (lift (face_encodings w)) (\<lambda>fingerprints.
         bind (lift (case fingerprints of [] \<Rightarrow> Inl IndexError | f # _ \<Rightarrow> Inr f))
           (\<lambda>fingerprint.
         bind (emit (Log DEBUG ''Face fingerprint was generated'')) (\<lambda>_.
         bind (lift (pack_fingerprint fingerprint)) (\<lambda>packed_fingerprint.
         bind (emit (Log INFO (''Packed face fingerprint as ''
                 @ bytes_hex packed_fingerprint))) (\<lambda>_.
         ret (Some packed_fingerprint))))))))))))))))))"

text \<open>
  Lines 171 to 194: one request to \<open>/user/pharmacy_get\<close>, one response, decoded as
  JSON. The request body (version and base64 of the packed fingerprint) is built by
  library code and is not part of the event.
\<close>

definition authenticate :: "world \<Rightarrow> byte list \<Rightarrow> json res" where
  "authenticate w packed_fingerprint =
     bind (emit Session_open) (\<lambda>_.
     bind (may_raise (session_open w)) (\<lambda>_.
     bind (emit (Log DEBUG ''HTTP session started from main_step'')) (\<lambda>_.
     bind (emit (Http_get (api_endpoint @ ''/user/pharmacy_get''))) (\<lambda>_.
     bind (may_raise (session_get w)) (\<lambda>_.
     bind (emit (Log DEBUG ''Sent face fingerprint to authenticate'')) (\<lambda>_.
     bind (lift (response_json w)) (\<lambda>data_response.
     bind (emit (Log DEBUG ''Decoded response data as JSON'')) (\<lambda>_.
     ret data_response))))))))"

text \<open>
  The body of the \<open>for\<close> loop, lines 208 to 223, for one prescription; the state is the
  list \<open>drugs_dispensed\<close>. \<open>din in din_to_motor\<close> hashes the DIN: a list or a dict
  raises \<open>TypeError\<close>, and a value that is no string equals no key.
\<close>

definition dispense_one :: "motor_map \<Rightarrow> json \<Rightarrow> string list \<Rightarrow> string list res" where
  "dispense_one din_to_motor pres drugs_dispensed =
     bind (lift (subscript pres ''din'')) (\<lambda>din.
     case din of
       JList _ \<Rightarrow> raise TypeError
     | JDict _ \<Rightarrow> raise TypeError
     | JStr s \<Rightarrow>
         if din_to_motor s \<noteq> None then
           bind (emit (Log INFO (''Attempting to dispense drug with DIN '' @ s))) (\<lambda>_.
           bind (emit (Call_dispense s)) (\<lambda>_.
           bind (lift (dispense din_to_motor s)) (\<lambda>drug_was_dispensed.
           if drug_was_dispensed then
             bind (emit (Log INFO ''Drug dispense reported success'')) (\<lambda>_.
             ret (drugs_dispensed @ [s]))
           else
             bind (emit (Log INFO ''Drug dispense reported failure'')) (\<lambda>_.
             ret drugs_dispensed))))
         else ret drugs_dispensed
     | _ \<Rightarrow> ret drugs_dispensed)"

text \<open>The \<open>for\<close> loop over the prescriptions, lines 207 to 223.\<close>

fun for_prescriptions :: "motor_map \<Rightarrow> json list \<Rightarrow> string list \<Rightarrow> string list res" where
  "for_prescriptions din_to_motor [] drugs_dispensed = ret drugs_dispensed"
| "for_prescriptions din_to_motor (pres # rest) drugs_dispensed =
     bind (dispense_one din_to_motor pres drugs_dispensed)
       (for_prescriptions din_to_motor rest)"

text \<open>
  Lines 195 to 223, from the guard on. The guard and the branch read the name
  \<open>data\<close>, which \<open>main_step\<close> never assigns and the module never defines; the awaited
  response is \<open>data_response\<close>. The binding of \<open>data\<close> in the module's namespace is
  the parameter \<open>data\<close>: \<open>None\<close> is the module as it stands, where evaluating the name
  raises \<open>NameError\<close>.

  The report task is created and awaited before the loop starts, so its effects come
  first and an exception of the task is raised here.
\<close>

definition on_response :: "motor_map \<Rightarrow> json option \<Rightarrow> world \<Rightarrow> json \<Rightarrow> unit res" where
  "on_response din_to_motor data w data_response =
     (if data_response = JNone then ret ()
      else case data of
        None \<Rightarrow> raise NameError
      | Some d \<Rightarrow>
          bind (lift (dict_get d ''success'')) (\<lambda>success.
          if \<not> truthy success then ret ()
          else
            bind (lift (subscript d ''version'')) (\<lambda>version.
            if version \<noteq> JStr api_version then ret ()
            else
              bind (emit (Log DEBUG ''Authenticated and prescription data acquired'')) (\<lambda>_.
              bind (lift (subscript d ''id'')) (\<lambda>auth_token.
              bind (emit (Create_task auth_token [])) (\<lambda>_.
              bind (report_dispensed w auth_token []) (\<lambda>_.
              bind (lift (subscript d ''prescriptions'')) (\<lambda>prescriptions.
              bind (lift (py_iter prescriptions)) (\<lambda>items.
              bind (for_prescriptions din_to_motor items []) (\<lambda>_.
              ret ()))))))))))"

definition main_step :: "motor_map \<Rightarrow> json option \<Rightarrow> world \<Rightarrow> unit res" where
  "main_step din_to_motor data w =
     bind (capture_and_encode w) (\<lambda>packed.
     case packed of
       None \<Rightarrow> ret ()
     | Some packed_fingerprint \<Rightarrow>
         bind (authenticate w packed_fingerprint) (on_response din_to_motor data w))"

subsection \<open>main\_async\<close>

text \<open>
  One pass of the \<open>while True\<close> loop. The result is the exception that leaves the
  \<open>try\<close> statement, if any: \<open>KeyboardInterrupt\<close> is logged and raised again, an
  instance of \<open>Exception\<close> is logged and dropped, and an exception that matches neither
  clause passes through.
\<close>

definition main_iteration :: "motor_map \<Rightarrow> json option \<Rightarrow> world \<Rightarrow> exc option \<times> event list" where
  "main_iteration din_to_motor data w =
     (let start = Log DEBUG (''Starting the main loop | Current UTC time is '' @ utc_now w)
      in case main_step din_to_motor data w of
        (Inr _, t) \<Rightarrow> (None, start # t)
      | (Inl e, t) \<Rightarrow>
          if e = KeyboardInterrupt then
            (Some KeyboardInterrupt, start # t @
               [Log INFO ''Exiting main loop because a keyboard interrupt (SIGINT) was received''])
          else if is_Exception e then (None, start # t @ [Log_exc ERROR e])
          else (Some e, start # t))"

text \<open>
  The loop never ends by itself. It is run on the worlds of finitely many passes:
  \<open>None\<close> says that it is still running after them, \<open>Some e\<close> that \<open>e\<close> left it.
\<close>

fun main_loop :: "motor_map \<Rightarrow> json option \<Rightarrow> world list \<Rightarrow> exc option \<times> event list" where
  "main_loop din_to_motor data [] = (None, [])"
| "main_loop din_to_motor data (w # ws) =
     (case main_iteration din_to_motor data w of
        (Some e, t) \<Rightarrow> (Some e, t)
      | (None, t) \<Rightarrow>
          (case main_loop din_to_motor data ws of (r, t') \<Rightarrow> (r, t @ t')))"

text \<open>
  \<open>main_async\<close>: the start is logged with the clock reading \<open>now\<close>, the camera is
  opened (\<open>video\<close> is what \<open>cv2.VideoCapture(0)\<close> raises, if anything), and the loop
  runs. The statements after the loop are never reached.
\<close>

definition main_async ::
  "motor_map \<Rightarrow> json option \<Rightarrow> string \<Rightarrow> exc option \<Rightarrow> world list \<Rightarrow> exc option \<times> event list" where
  "main_async din_to_motor data now video ws =
     (let t0 = [Log INFO (''Starting main function | Current UTC time is '' @ now), Video_capture]
      in case video of
        Some e \<Rightarrow> (Some e, t0)
      | None \<Rightarrow> (case main_loop din_to_motor data ws of (r, t) \<Rightarrow> (r, t0 @ t)))"

subsection \<open>Measures and sample inputs\<close>

text \<open>The number of dispense attempts for one DIN in a trace.\<close>

definition attempts :: "string \<Rightarrow> event list \<Rightarrow> nat" where
  "attempts din t = length (filter (\<lambda>ev. ev = Call_dispense din) t)"

text \<open>
  A world in which the camera delivers a frame with one face, whose fingerprint is the
  zero vector, and the server answers \<open>r\<close>.
\<close>

definition world_with_response :: "json \<Rightarrow> world" where
  "world_with_response r =
     \<lparr>utc_now = ''2020-01-01 00:00:00'', capture_read = Inr True, cvt_color = None,
      face_locations = Inr 1, face_encodings = Inr [replicate 128 (Finite 0)],
      session_open = None, session_get = None, response_json = Inr r,
      report_session_open = None, report_session_get = None\<rparr>"

text \<open>
  The float64 next to \<open>- 32767 / 32768\<close> on the side of \<open>- 1\<close>: the double that
  Python prints as \<open>-0.9999694824218751\<close>.
\<close>

definition near_minus_one :: real where
  "near_minus_one = - (32767 / 32768 + 1 / 2 ^ 53)"

definition prescription :: "string \<Rightarrow> json" where
  "prescription din = JDict [(''din'', JStr din)]"

definition response_matched :: "json list \<Rightarrow> json" where
  "response_matched ps =
     JDict [(''version'', JStr ''0''), (''success'', JBool True),
            (''id'', JStr ''token''), (''prescriptions'', JList ps)]"

definition response_wrong_version :: json where
  "response_wrong_version =
     JDict [(''version'', JStr ''1''), (''success'', JBool True),
            (''id'', JStr ''token''), (''prescriptions'', JList [])]"

definition response_no_match :: json where
  "response_no_match = JDict [(''version'', JStr ''0''), (''success'', JBool False)]"

section \<open>Properties\<close>

subsection \<open>Sequencing\<close>

lemmas res_defs = bind_def ret_def raise_def emit_def lift_def may_raise_def

lemma bind_Inr: "bind (Inr a, t) f = (fst (f a), t @ snd (f a))"
  by (simp add: bind_def split: prod.splits)

lemma bind_Inl: "bind (Inl e, t) f = (Inl e, t)"
  by (simp add: bind_def)

lemma in_bind:
  "ev \<in> set (snd (bind m f)) \<Longrightarrow>
     ev \<in> set (snd m) \<or> (\<exists>a. fst m = Inr a \<and> ev \<in> set (snd (f a)))"
  by (cases m; cases "fst m") (auto simp add: bind_def split: prod.splits)
subsection \<open>The codec\<close>

lemma scale_value: "scale = 32768 - 1 / 2 ^ 38"
  by (simp add: scale_def scale0_def)

lemma scale_pos: "0 < scale"
  by (simp add: scale_value)

lemma scale0_lt_1: "\<not> scale0 \<ge> 1"
  by (simp add: scale0_def)

lemma scale_spec: "scale = (1 - 1 / 2 ^ 53) * 2 ^ 15"
  by (simp add: scale_def scale0_def)

lemma round_half_even_le: "r \<le> of_int n \<Longrightarrow> round_half_even r \<le> n"
  unfolding round_half_even_def Let_def
  by (auto simp add: floor_le_iff)

lemma round_half_even_ge: "of_int n \<le> r \<Longrightarrow> n \<le> round_half_even r"
  unfolding round_half_even_def Let_def
  by (auto simp add: le_floor_iff) linarith+

lemma f64_exponent_upper:
  assumes "y \<noteq> 0" and "\<bar>y\<bar> < 2 ^ 15"
  shows "f64_exponent y \<le> 14"
proof -
  have "log 2 \<bar>y\<bar> < 15"
    using assms by (simp add: log_less_iff powr_realpow [symmetric])
  then have "\<lfloor>log 2 \<bar>y\<bar>\<rfloor> < 15" by (simp add: floor_less_iff)
  then show ?thesis by (simp add: f64_exponent_def)
qed

lemma f64_exponent_binade:
  assumes "2 powr of_int e \<le> \<bar>y\<bar>" and "\<bar>y\<bar> < 2 powr (of_int e + 1)" and "- 1022 \<le> e"
  shows "f64_exponent y = e"
proof -
  have pos: "0 < \<bar>y\<bar>" using assms(1) by (smt (verit) powr_gt_zero)
  have "of_int e \<le> log 2 \<bar>y\<bar>" using assms(1) pos by (simp add: le_log_iff)
  moreover have "log 2 \<bar>y\<bar> < of_int e + 1" using assms(2) pos by (simp add: log_less_iff)
  ultimately have "\<lfloor>log 2 \<bar>y\<bar>\<rfloor> = e" by (simp add: floor_eq_iff)
  then show ?thesis using assms(3) by (simp add: f64_exponent_def)
qed

lemma f64_ulp_inverse:
  assumes "f64_exponent y \<le> 52"
  shows "f64_ulp y = 1 / 2 ^ nat (52 - f64_exponent y)"
proof -
  have eq: "of_int (f64_exponent y) - 52 = - real (nat (52 - f64_exponent y))"
    using assms by simp
  have "f64_ulp y = 2 powr (- real (nat (52 - f64_exponent y)))"
    unfolding f64_ulp_def eq by (rule refl)
  also have "\<dots> = 1 / 2 ^ nat (52 - f64_exponent y)"
    by (simp add: powr_minus powr_realpow divide_inverse)
  finally show ?thesis .
qed

lemma grid_le:
  assumes "0 < u" and "c = of_int m * u" and "y \<le> c"
  shows "of_int (round_half_even (y / u)) * u \<le> c"
proof -
  have "y / u \<le> of_int m" using assms by (simp add: pos_divide_le_eq)
  then have "round_half_even (y / u) \<le> m" by (rule round_half_even_le)
  then have "(of_int (round_half_even (y / u)) :: real) \<le> of_int m" by simp
  then show ?thesis using assms(1,2) by (simp add: mult_right_mono)
qed

lemma grid_ge:
  assumes "0 < u" and "c = of_int m * u" and "c \<le> y"
  shows "c \<le> of_int (round_half_even (y / u)) * u"
proof -
  have "of_int m \<le> y / u" using assms by (simp add: pos_le_divide_eq)
  then have "m \<le> round_half_even (y / u)" by (rule round_half_even_ge)
  then have "(of_int m :: real) \<le> of_int (round_half_even (y / u))" by simp
  then show ?thesis using assms(1,2) by (simp add: mult_right_mono)
qed

lemma scale_on_grid:
  assumes "e \<le> 14"
  shows "scale = of_int ((2 ^ 53 - 1) * 2 ^ nat (14 - e)) * (1 / 2 ^ nat (52 - e))"
proof -
  have "nat (52 - e) = 38 + nat (14 - e)" using assms by simp
  then have "(2::real) ^ nat (52 - e) = 2 ^ 38 * 2 ^ nat (14 - e)" by (simp add: power_add)
  then show ?thesis by (simp add: scale_value)
qed

lemma int_on_grid: "of_int n = of_int (n * 2 ^ k) * (1 / 2 ^ k :: real)"
  by simp

lemma f64_round_scaled:
  assumes "\<bar>y\<bar> \<le> scale"
  shows "\<exists>r. f64_round y = Finite r \<and> \<bar>r\<bar> \<le> scale \<and>
           of_int \<lfloor>y\<rfloor> \<le> r \<and> r \<le> of_int \<lfloor>y\<rfloor> + 1"
proof (cases "y = 0")
  case True
  then show ?thesis by (simp add: f64_round_def scale_value)
next
  case False
  define e where "e = f64_exponent y"
  define u where "u = f64_ulp y"
  define r where "r = of_int (round_half_even (y / u)) * u"
  have "\<bar>y\<bar> < 2 ^ 15" using assms by (simp add: scale_value)
  then have e14: "e \<le> 14" using False f64_exponent_upper unfolding e_def by blast
  then have u: "u = 1 / 2 ^ nat (52 - e)"
    unfolding u_def e_def using f64_ulp_inverse [of y] by simp
  then have upos: "0 < u" by simp
  have sg: "scale = of_int ((2 ^ 53 - 1) * 2 ^ nat (14 - e)) * u"
    using scale_on_grid [OF e14] u by simp
  have nsg: "- scale = of_int (- ((2 ^ 53 - 1) * 2 ^ nat (14 - e))) * u"
    using sg by simp
  have fg: "of_int \<lfloor>y\<rfloor> = of_int (\<lfloor>y\<rfloor> * 2 ^ nat (52 - e)) * u"
    unfolding u by (rule int_on_grid)
  have cg: "of_int (\<lfloor>y\<rfloor> + 1) = of_int ((\<lfloor>y\<rfloor> + 1) * 2 ^ nat (52 - e)) * u"
    unfolding u by (rule int_on_grid)
  have r_le: "r \<le> scale" unfolding r_def using grid_le [OF upos sg] assms by simp
  have r_ge: "- scale \<le> r" unfolding r_def using grid_ge [OF upos nsg] assms by simp
  have r_fl: "of_int \<lfloor>y\<rfloor> \<le> r" unfolding r_def using grid_ge [OF upos fg] by simp
  have "y \<le> of_int (\<lfloor>y\<rfloor> + 1)" by linarith
  then have r_cl: "r \<le> of_int (\<lfloor>y\<rfloor> + 1)" unfolding r_def using grid_le [OF upos cg] by blast
  have fin: "\<not> 2 ^ 1024 \<le> r" "\<not> r \<le> - (2 ^ 1024)"
    using r_le r_ge by (simp_all add: scale_value)
  have "f64_round y = Finite r"
    using False fin unfolding f64_round_def r_def u_def Let_def by simp
  then show ?thesis using r_le r_ge r_fl r_cl by (auto simp add: abs_le_iff)
qed

text \<open>What one valid element packs to.\<close>

lemma packed_element:
  assumes "- 1 \<le> r" and "r \<le> 1"
  shows "\<exists>y. f64_round (r * scale) = Finite y \<and>
           astype_int16 (np_floor (f64_times (Finite r) scale)) = word_of_int \<lfloor>y\<rfloor> \<and>
           sint (word_of_int \<lfloor>y\<rfloor> :: 16 word) = \<lfloor>y\<rfloor> \<and>
           \<lfloor>r * scale\<rfloor> \<le> \<lfloor>y\<rfloor> \<and> \<lfloor>y\<rfloor> \<le> \<lfloor>r * scale\<rfloor> + 1 \<and>
           (r = 0 \<longrightarrow> \<lfloor>y\<rfloor> = 0) \<and> (r = 1 \<longrightarrow> \<lfloor>y\<rfloor> = 32767)"
proof -
  have up: "r * scale \<le> scale"
    using assms(2) scale_pos by (simp add: mult_le_cancel_right1)
  have lo: "- scale \<le> r * scale"
    using assms(1) scale_pos by (metis mult_le_cancel_right_pos mult_minus1)
  have "\<bar>r * scale\<bar> \<le> scale" using up lo by (simp add: abs_le_iff)
  from f64_round_scaled [OF this] obtain y where
    y: "f64_round (r * scale) = Finite y" and b: "\<bar>y\<bar> \<le> scale"
    and f: "of_int \<lfloor>r * scale\<rfloor> \<le> y" and c: "y \<le> of_int \<lfloor>r * scale\<rfloor> + 1"
    by blast
  have "y < 32768" "- 32768 \<le> y" using b by (simp_all add: scale_value abs_le_iff)
  then have "- 32768 \<le> \<lfloor>y\<rfloor>" "\<lfloor>y\<rfloor> < 32768"
    by (simp_all add: le_floor_iff floor_less_iff)
  then have range: "- 32768 \<le> \<lfloor>y\<rfloor>" "\<lfloor>y\<rfloor> \<le> 32767" by simp_all
  have s: "sint (word_of_int \<lfloor>y\<rfloor> :: 16 word) = \<lfloor>y\<rfloor>"
    using range by (simp add: sint_sbintrunc' signed_take_bit_int_eq_self)
  have f': "\<lfloor>r * scale\<rfloor> \<le> \<lfloor>y\<rfloor>" using f by (simp add: le_floor_iff)
  have "y \<le> of_int (\<lfloor>r * scale\<rfloor> + 1)" using c by simp
  then have c': "\<lfloor>y\<rfloor> \<le> \<lfloor>r * scale\<rfloor> + 1" by (simp only: floor_le_iff)
  have zero: "\<lfloor>y\<rfloor> = 0" if "r = 0" using that y by (simp add: f64_round_def)
  have one: "\<lfloor>y\<rfloor> = 32767" if "r = 1"
  proof -
    have "\<lfloor>r * scale\<rfloor> = 32767" using that by (simp add: scale_value floor_eq_iff)
    then have "32767 \<le> \<lfloor>y\<rfloor>" using f' by simp
    then show ?thesis using range(2) by linarith
  qed
  have a: "astype_int16 (np_floor (f64_times (Finite r) scale)) = word_of_int \<lfloor>y\<rfloor>"
    by (simp add: y)
  show ?thesis using y a s f' c' zero one by blast
qed

lemma word_cat_pack_h: "word_cat (ucast (drop_bit 8 v) :: byte) (ucast v :: byte) = (v :: 16 word)"
  apply (rule bit_word_eqI)
  apply (auto simp add: bit_word_cat_iff bit_ucast_iff bit_drop_bit_eq)
  done

lemma concat_pack_h_length: "length (concat (map pack_h vs)) = 2 * length vs"
  by (induction vs) (simp_all add: pack_h_def)

lemma concat_pack_h_nth:
  "i < length vs \<Longrightarrow>
     concat (map pack_h vs) ! (2 * i) = ucast (vs ! i) \<and>
     concat (map pack_h vs) ! (2 * i + 1) = ucast (drop_bit 8 (vs ! i))"
proof (induction vs arbitrary: i)
  case Nil
  then show ?case by simp
next
  case (Cons v vs)
  show ?case
  proof (cases i)
    case 0
    then show ?thesis by (simp add: pack_h_def)
  next
    case (Suc j)
    then have "j < length vs" using Cons.prems by simp
    from Cons.IH [OF this] show ?thesis using Suc by (simp add: pack_h_def)
  qed
qed

lemma unpack_concat_pack_h:
  "unpack (concat (map pack_h vs)) = map (\<lambda>v. of_int (sint v) / spec_scale) vs"
  by (induction vs) (simp_all add: pack_h_def unpack_h_def word_cat_pack_h)

lemma finite_not_out_of_range:
  assumes "\<forall>x \<in> set v. \<exists>r. x = Finite r \<and> - 1 \<le> r \<and> r \<le> 1"
  shows "\<not> (\<exists>x \<in> set v. f64_gt x 1)" and "\<not> (\<exists>x \<in> set v. f64_lt x (- 1))"
  using assms by (auto simp add: not_less)

lemma pack_fingerprint_valid:
  assumes "length v = 128" and "\<forall>x \<in> set v. \<exists>r. x = Finite r \<and> - 1 \<le> r \<and> r \<le> 1"
  shows "pack_fingerprint v =
           Inr (concat (map pack_h (map (\<lambda>x. astype_int16 (np_floor (f64_times x scale))) v)))"
  using assms(1) finite_not_out_of_range [OF assms(2)]
  by (simp add: pack_fingerprint_def scale0_lt_1 struct_pack_128h_def)

lemma concat_replicate_pair: "concat (replicate n [a, a]) = replicate (2 * n) a"
  by (induction n) simp_all

lemma pack_zero: "pack_fingerprint (replicate 128 (Finite 0)) = Inr (replicate 256 0)"
  using concat_replicate_pair [of 128 "0 :: byte"]
  by (simp add: pack_fingerprint_def scale0_lt_1 struct_pack_128h_def pack_h_def f64_round_def)

lemma near_minus_one_round: "f64_round (near_minus_one * scale) = Finite (- 32767)"
proof -
  define y where "y = near_minus_one * scale"
  have yv: "y = - (32767 + 1 / 2 ^ 53 - 1 / 2 ^ 91)"
    by (simp add: y_def near_minus_one_def scale_value)
  have e: "f64_exponent y = 14"
    by (rule f64_exponent_binade) (simp_all add: yv powr_realpow [symmetric])
  have u: "f64_ulp y = 1 / 2 ^ 38" using f64_ulp_inverse [of y] e by simp
  have q: "y / f64_ulp y = - (32767 * 2 ^ 38 + 1 / 2 ^ 15 - 1 / 2 ^ 53)"
    unfolding u by (simp add: yv)
  have fl: "\<lfloor>y / f64_ulp y\<rfloor> = - (32767 * 2 ^ 38) - 1"
    unfolding q by (simp add: floor_eq_iff)
  have rh: "round_half_even (y / f64_ulp y) = - (32767 * 2 ^ 38)"
    unfolding round_half_even_def Let_def fl unfolding q by simp
  have r: "of_int (round_half_even (y / f64_ulp y)) * f64_ulp y = - 32767"
    unfolding rh unfolding u by simp
  have "y \<noteq> 0" by (simp add: yv)
  then show ?thesis unfolding y_def [symmetric] f64_round_def Let_def r by simp
qed

text \<open>
  C6. A vector with an element less than \<open>- 1\<close> or greater than \<open>1\<close> is rejected by the
  range tests, the first statements of \<open>pack_fingerprint\<close>: the call raises
  \<open>ValueError\<close> (the spec's RangeError), so there is no result and the vector never
  reaches \<open>struct.pack\<close>. The length of the vector does not matter. The second half
  is the same for a vector of real numbers.
\<close>

theorem pack_fingerprint_out_of_range:
  "((\<exists>x \<in> set v. f64_lt x (- 1) \<or> f64_gt x 1) \<longrightarrow> pack_fingerprint v = Inl ValueError) \<and>
   ((\<exists>r \<in> set rs. r < - 1 \<or> 1 < r) \<longrightarrow> pack_fingerprint (map Finite rs) = Inl ValueError)"
  by (auto simp add: pack_fingerprint_def)

theorem pack_fingerprint_out_of_range_witness:
  "(\<exists>x \<in> set (replicate 127 (Finite 0) @ [Finite (3 / 2)]). f64_lt x (- 1) \<or> f64_gt x 1) \<and>
   pack_fingerprint (replicate 127 (Finite 0) @ [Finite (3 / 2)]) = Inl ValueError \<and>
   (\<exists>r \<in> set (replicate 127 0 @ [3 / 2 :: real]). r < - 1 \<or> 1 < r) \<and>
   pack_fingerprint (map Finite (replicate 127 0 @ [3 / 2])) = Inl ValueError"
proof -
  have h: "\<exists>x \<in> set (replicate 127 (Finite 0) @ [Finite (3 / 2)]). f64_lt x (- 1) \<or> f64_gt x 1"
    by simp
  have k: "\<exists>r \<in> set (replicate 127 0 @ [3 / 2 :: real]). r < - 1 \<or> 1 < r" by simp
  show ?thesis
    using h k pack_fingerprint_out_of_range
      [of "replicate 127 (Finite 0) @ [Finite (3 / 2)]" "replicate 127 0 @ [3 / 2]"]
    by blast
qed

text \<open>
  C7, as stated: the i-th integer is the floor of the product \<open>v\<^sub>i * scale\<close>. The code
  floors the float64 product, which is the exact product rounded to the nearest float.
  For the float \<open>-0.9999694824218751\<close> the exact product lies just below \<open>- 32767\<close> and
  rounds to it: the code packs \<open>- 32767\<close> (bytes \<open>01 80\<close>), while the floor of the exact
  product is \<open>- 32768\<close>.
\<close>

theorem pack_fingerprint_float_product:
  "- 1 \<le> near_minus_one \<and> near_minus_one \<le> 1 \<and>
   pack_fingerprint (replicate 127 (Finite 0) @ [Finite near_minus_one])
     = Inr (replicate 254 0 @ [1, 128]) \<and>
   sint (word_cat (128 :: byte) (1 :: byte) :: 16 word) = - 32767 \<and>
   \<lfloor>near_minus_one * ((1 - 1 / 2 ^ 53) * 2 ^ 15)\<rfloor> = - 32768"
proof -
  have a: "- 1 \<le> near_minus_one \<and> near_minus_one \<le> 1" by (simp add: near_minus_one_def)
  have z: "astype_int16 (np_floor (f64_times (Finite 0) scale)) = 0"
    by (simp add: f64_round_def)
  have n: "astype_int16 (np_floor (f64_times (Finite near_minus_one) scale)) = word_of_int (- 32767)"
    by (simp add: near_minus_one_round)
  have g: "\<not> f64_gt (Finite near_minus_one) 1" "\<not> f64_lt (Finite near_minus_one) (- 1)"
    "\<not> f64_gt (Finite 0) 1" "\<not> f64_lt (Finite 0) (- 1)"
    using a by simp_all
  have p: "pack_fingerprint (replicate 127 (Finite 0) @ [Finite near_minus_one])
     = Inr (replicate 254 0 @ [1, 128])"
    using concat_replicate_pair [of 127 "0 :: byte"] g
    by (simp add: pack_fingerprint_def scale0_lt_1 struct_pack_128h_def z n pack_h_def
        del: f64_times.simps np_floor.simps astype_int16.simps f64_gt.simps f64_lt.simps)
  have s: "sint (word_cat (128 :: byte) (1 :: byte) :: 16 word) = - 32767"
    by (simp add: word_cat_eq)
  have f: "\<lfloor>near_minus_one * ((1 - 1 / 2 ^ 53) * 2 ^ 15)\<rfloor> = - 32768"
    by (simp add: near_minus_one_def floor_eq_iff)
  show ?thesis using a p s f by blast
qed

text \<open>
  C7, amended: for a vector of 128 finite elements, all in \<open>[-1, 1]\<close>,
  \<open>pack_fingerprint\<close> returns 256 bytes; bytes \<open>2 i\<close> and \<open>2 i + 1\<close> are the low and
  the high byte of a signed 16-bit integer whose value is the floor of the float64
  product of \<open>v\<^sub>i\<close> and \<open>scale = (1 - 1 / 2 ^ 53) * 2 ^ 15\<close> (the exact product rounded
  to the nearest float, ties to even). That value is the floor of the exact product or
  one more. An element equal to 1 is encoded as 32767 (bytes \<open>ff 7f\<close>), the top of the
  positive range, and the zero vector as 256 zero bytes.
\<close>

theorem pack_fingerprint_layout:
  "(length v = 128 \<and> (\<forall>x \<in> set v. \<exists>r. x = Finite r \<and> - 1 \<le> r \<and> r \<le> 1) \<longrightarrow>
      (\<exists>bs. pack_fingerprint v = Inr bs \<and> length bs = 256 \<and>
         (\<forall>i < 128. \<exists>r y.
            v ! i = Finite r \<and>
            f64_round (r * ((1 - 1 / 2 ^ 53) * 2 ^ 15)) = Finite y \<and>
            sint (word_cat (bs ! (2 * i + 1)) (bs ! (2 * i)) :: 16 word) = \<lfloor>y\<rfloor> \<and>
            \<lfloor>r * ((1 - 1 / 2 ^ 53) * 2 ^ 15)\<rfloor> \<le> \<lfloor>y\<rfloor> \<and>
            \<lfloor>y\<rfloor> \<le> \<lfloor>r * ((1 - 1 / 2 ^ 53) * 2 ^ 15)\<rfloor> + 1 \<and>
            (r = 1 \<longrightarrow> bs ! (2 * i) = 255 \<and> bs ! (2 * i + 1) = 127 \<and> \<lfloor>y\<rfloor> = 32767)))) \<and>
   pack_fingerprint (replicate 128 (Finite 0)) = Inr (replicate 256 0)"
proof (intro conjI impI)
  assume a: "length v = 128 \<and> (\<forall>x \<in> set v. \<exists>r. x = Finite r \<and> - 1 \<le> r \<and> r \<le> 1)"
  define vs :: "16 word list"
    where "vs = map (\<lambda>x. astype_int16 (np_floor (f64_times x scale))) v"
  define bs where "bs = concat (map pack_h vs)"
  have p: "pack_fingerprint v = Inr bs"
    using a pack_fingerprint_valid [of v] by (simp add: bs_def vs_def)
  have "length vs = 128" using a by (simp add: vs_def)
  then have len: "length bs = 256" using concat_pack_h_length [of vs] by (simp add: bs_def)
  have el: "\<exists>r y.
            v ! i = Finite r \<and>
            f64_round (r * ((1 - 1 / 2 ^ 53) * 2 ^ 15)) = Finite y \<and>
            sint (word_cat (bs ! (2 * i + 1)) (bs ! (2 * i)) :: 16 word) = \<lfloor>y\<rfloor> \<and>
            \<lfloor>r * ((1 - 1 / 2 ^ 53) * 2 ^ 15)\<rfloor> \<le> \<lfloor>y\<rfloor> \<and>
            \<lfloor>y\<rfloor> \<le> \<lfloor>r * ((1 - 1 / 2 ^ 53) * 2 ^ 15)\<rfloor> + 1 \<and>
            (r = 1 \<longrightarrow> bs ! (2 * i) = 255 \<and> bs ! (2 * i + 1) = 127 \<and> \<lfloor>y\<rfloor> = 32767)"
    if i: "i < 128" for i
  proof -
    have il: "i < length vs" using i a by (simp add: vs_def)
    have mem: "v ! i \<in> set v" using i a by simp
    then obtain r where r: "v ! i = Finite r" "- 1 \<le> r" "r \<le> 1" using a by blast
    from packed_element [OF r(2,3)] obtain y where
      y: "f64_round (r * scale) = Finite y"
      and av: "astype_int16 (np_floor (f64_times (Finite r) scale)) = word_of_int \<lfloor>y\<rfloor>"
      and s: "sint (word_of_int \<lfloor>y\<rfloor> :: 16 word) = \<lfloor>y\<rfloor>"
      and f: "\<lfloor>r * scale\<rfloor> \<le> \<lfloor>y\<rfloor>" and c: "\<lfloor>y\<rfloor> \<le> \<lfloor>r * scale\<rfloor> + 1"
      and one: "r = 1 \<longrightarrow> \<lfloor>y\<rfloor> = 32767"
      by blast
    have vi: "vs ! i = word_of_int \<lfloor>y\<rfloor>"
      using i a r(1) av by (simp add: vs_def del: f64_times.simps)
    have b: "bs ! (2 * i) = ucast (vs ! i)" "bs ! (2 * i + 1) = ucast (drop_bit 8 (vs ! i))"
      using concat_pack_h_nth [OF il] by (simp_all add: bs_def)
    have cat: "(word_cat (bs ! (2 * i + 1)) (bs ! (2 * i)) :: 16 word) = vs ! i"
      unfolding b by (rule word_cat_pack_h)
    have sv: "sint (word_cat (bs ! (2 * i + 1)) (bs ! (2 * i)) :: 16 word) = \<lfloor>y\<rfloor>"
      unfolding cat vi by (rule s)
    have top: "bs ! (2 * i) = 255 \<and> bs ! (2 * i + 1) = 127 \<and> \<lfloor>y\<rfloor> = 32767" if "r = 1"
    proof -
      have t: "\<lfloor>y\<rfloor> = 32767" using that one by blast
      have "bs ! (2 * i) = 255" "bs ! (2 * i + 1) = 127" unfolding b vi t by simp_all
      then show ?thesis using t by simp
    qed
    show ?thesis
      using r(1) y sv f c top unfolding scale_spec by blast
  qed
  show "\<exists>bs. pack_fingerprint v = Inr bs \<and> length bs = 256 \<and>
         (\<forall>i < 128. \<exists>r y.
            v ! i = Finite r \<and>
            f64_round (r * ((1 - 1 / 2 ^ 53) * 2 ^ 15)) = Finite y \<and>
            sint (word_cat (bs ! (2 * i + 1)) (bs ! (2 * i)) :: 16 word) = \<lfloor>y\<rfloor> \<and>
            \<lfloor>r * ((1 - 1 / 2 ^ 53) * 2 ^ 15)\<rfloor> \<le> \<lfloor>y\<rfloor> \<and>
            \<lfloor>y\<rfloor> \<le> \<lfloor>r * ((1 - 1 / 2 ^ 53) * 2 ^ 15)\<rfloor> + 1 \<and>
            (r = 1 \<longrightarrow> bs ! (2 * i) = 255 \<and> bs ! (2 * i + 1) = 127 \<and> \<lfloor>y\<rfloor> = 32767))"
    using p len el by blast
next
  show "pack_fingerprint (replicate 128 (Finite 0)) = Inr (replicate 256 0)" by (rule pack_zero)
qed

theorem pack_fingerprint_layout_witness:
  "length (replicate 128 (Finite 1)) = 128 \<and>
   list_all (\<lambda>x. \<exists>r. x = Finite r \<and> - 1 \<le> r \<and> r \<le> 1) (replicate 128 (Finite 1)) \<and>
   (\<exists>bs. pack_fingerprint (replicate 128 (Finite 1)) = Inr bs \<and> length bs = 256 \<and>
      (\<forall>i < 128. bs ! (2 * i) = 255 \<and> bs ! (2 * i + 1) = 127))"
proof -
  have h: "length (replicate 128 (Finite 1)) = 128 \<and>
           (\<forall>x \<in> set (replicate 128 (Finite 1)). \<exists>r. x = Finite r \<and> - 1 \<le> r \<and> r \<le> 1)"
    by simp
  from pack_fingerprint_layout [of "replicate 128 (Finite 1)"] h
  obtain bs where bs: "pack_fingerprint (replicate 128 (Finite 1)) = Inr bs" "length bs = 256"
    and el: "\<forall>i < 128. \<exists>r y.
            replicate 128 (Finite 1) ! i = Finite r \<and>
            f64_round (r * ((1 - 1 / 2 ^ 53) * 2 ^ 15)) = Finite y \<and>
            sint (word_cat (bs ! (2 * i + 1)) (bs ! (2 * i)) :: 16 word) = \<lfloor>y\<rfloor> \<and>
            \<lfloor>r * ((1 - 1 / 2 ^ 53) * 2 ^ 15)\<rfloor> \<le> \<lfloor>y\<rfloor> \<and>
            \<lfloor>y\<rfloor> \<le> \<lfloor>r * ((1 - 1 / 2 ^ 53) * 2 ^ 15)\<rfloor> + 1 \<and>
            (r = 1 \<longrightarrow> bs ! (2 * i) = 255 \<and> bs ! (2 * i + 1) = 127 \<and> \<lfloor>y\<rfloor> = 32767)"
    by blast
  have "\<forall>i < 128. bs ! (2 * i) = 255 \<and> bs ! (2 * i + 1) = 127"
  proof (intro allI impI)
    fix i :: nat
    assume i: "i < 128"
    then have "replicate 128 (Finite 1) ! i = Finite 1" by simp
    then show "bs ! (2 * i) = 255 \<and> bs ! (2 * i + 1) = 127"
      using el i by (metis f64.inject)
  qed
  then show ?thesis using h bs by (simp add: list_all_iff)
qed

text \<open>
  C8. The round trip: for a vector of 128 finite elements, all in \<open>[-1, 1]\<close>, unpacking
  the packed bytes gives 128 values, each within \<open>1 / ((1 - 1 / 2 ^ 53) * 2 ^ 15)\<close> of
  the original.
\<close>

theorem unpack_pack_roundtrip:
  assumes "length v = 128" and "\<forall>x \<in> set v. \<exists>r. x = Finite r \<and> - 1 \<le> r \<and> r \<le> 1"
  shows "\<exists>bs. pack_fingerprint v = Inr bs \<and> length (unpack bs) = 128 \<and>
           (\<forall>i < 128. \<exists>r. v ! i = Finite r \<and>
              \<bar>unpack bs ! i - r\<bar> \<le> 1 / ((1 - 1 / 2 ^ 53) * 2 ^ 15))"
proof -
  define vs :: "16 word list"
    where "vs = map (\<lambda>x. astype_int16 (np_floor (f64_times x scale))) v"
  define bs where "bs = concat (map pack_h vs)"
  have p: "pack_fingerprint v = Inr bs"
    using assms pack_fingerprint_valid [of v] by (simp add: bs_def vs_def)
  have lv: "length vs = 128" using assms(1) by (simp add: vs_def)
  have u: "unpack bs = map (\<lambda>w. of_int (sint w) / spec_scale) vs"
    unfolding bs_def by (rule unpack_concat_pack_h)
  have ss: "spec_scale = scale" by (simp add: spec_scale_def scale_spec)
  have d: "\<exists>r. v ! i = Finite r \<and> \<bar>unpack bs ! i - r\<bar> \<le> 1 / ((1 - 1 / 2 ^ 53) * 2 ^ 15)"
    if i: "i < 128" for i
  proof -
    have mem: "v ! i \<in> set v" using i assms(1) by simp
    then obtain r where r: "v ! i = Finite r" "- 1 \<le> r" "r \<le> 1" using assms(2) by blast
    from packed_element [OF r(2,3)] obtain y :: real where
      av: "astype_int16 (np_floor (f64_times (Finite r) scale)) = word_of_int \<lfloor>y\<rfloor>"
      and s: "sint (word_of_int \<lfloor>y\<rfloor> :: 16 word) = \<lfloor>y\<rfloor>"
      and f: "\<lfloor>r * scale\<rfloor> \<le> \<lfloor>y\<rfloor>" and c: "\<lfloor>y\<rfloor> \<le> \<lfloor>r * scale\<rfloor> + 1"
      by blast
    define k where "k = \<lfloor>y\<rfloor>"
    have vi: "vs ! i = word_of_int k"
      using i assms(1) r(1) av by (simp add: vs_def k_def del: f64_times.simps)
    have il: "i < length vs" using i lv by simp
    have n: "unpack bs ! i = real_of_int (sint (vs ! i)) / spec_scale"
      unfolding u using il by (simp only: nth_map)
    have e: "unpack bs ! i = of_int k / scale"
      unfolding n vi k_def s ss by (rule refl)
    have lo: "r * scale - 1 \<le> of_int k"
    proof -
      have "r * scale - 1 \<le> of_int \<lfloor>r * scale\<rfloor>" by linarith
      also have "\<dots> \<le> of_int k" using f by (simp add: k_def)
      finally show ?thesis .
    qed
    have hi: "of_int k \<le> r * scale + 1"
    proof -
      have "(of_int k :: real) \<le> of_int (\<lfloor>r * scale\<rfloor> + 1)"
        using c unfolding k_def by (rule of_int_le_iff [THEN iffD2])
      also have "\<dots> \<le> r * scale + 1" by simp
      finally show ?thesis .
    qed
    have "(r * scale - 1) / scale \<le> of_int k / scale"
      using lo scale_pos by (simp add: divide_right_mono)
    moreover have "(r * scale - 1) / scale = r - 1 / scale"
      using scale_pos by (simp add: diff_divide_distrib)
    ultimately have ge: "r - 1 / scale \<le> of_int k / scale" by simp
    have "of_int k / scale \<le> (r * scale + 1) / scale"
      using hi scale_pos by (simp add: divide_right_mono)
    moreover have "(r * scale + 1) / scale = r + 1 / scale"
      using scale_pos by (simp add: add_divide_distrib)
    ultimately have le: "of_int k / scale \<le> r + 1 / scale" by simp
    have "\<bar>unpack bs ! i - r\<bar> \<le> 1 / scale" using le ge by (simp add: e abs_le_iff)
    then show ?thesis using r(1) unfolding scale_spec by blast
  qed
  have "length (unpack bs) = 128" using lv by (simp add: u)
  then show ?thesis using p d by blast
qed

theorem unpack_pack_roundtrip_witness:
  "length (replicate 128 (Finite (1 / 2))) = 128 \<and>
   list_all (\<lambda>x. \<exists>r. x = Finite r \<and> - 1 \<le> r \<and> r \<le> 1) (replicate 128 (Finite (1 / 2))) \<and>
   (\<exists>bs. pack_fingerprint (replicate 128 (Finite (1 / 2))) = Inr bs \<and>
      length (unpack bs) = 128 \<and>
      \<bar>unpack bs ! 0 - 1 / 2\<bar> \<le> 1 / ((1 - 1 / 2 ^ 53) * 2 ^ 15))"
proof -
  have h1: "length (replicate 128 (Finite (1 / 2))) = 128" by simp
  have h2: "\<forall>x \<in> set (replicate 128 (Finite (1 / 2))). \<exists>r. x = Finite r \<and> - 1 \<le> r \<and> r \<le> 1"
    by (auto intro!: exI [of _ "1 / 2"])
  have h3: "list_all (\<lambda>x. \<exists>r. x = Finite r \<and> - 1 \<le> r \<and> r \<le> 1)
              (replicate 128 (Finite (1 / 2)))"
    using h2 by (simp only: list_all_iff)
  from unpack_pack_roundtrip [OF h1 h2] obtain bs where
    bs: "pack_fingerprint (replicate 128 (Finite (1 / 2))) = Inr bs" "length (unpack bs) = 128"
    and el: "\<forall>i < 128. \<exists>r. replicate 128 (Finite (1 / 2)) ! i = Finite r \<and>
              \<bar>unpack bs ! i - r\<bar> \<le> 1 / ((1 - 1 / 2 ^ 53) * 2 ^ 15)"
    by blast
  have "(0 :: nat) < 128" by simp
  with el obtain r where
    r: "replicate 128 (Finite (1 / 2)) ! 0 = Finite r"
       "\<bar>unpack bs ! 0 - r\<bar> \<le> 1 / ((1 - 1 / 2 ^ 53) * 2 ^ 15)"
    by blast
  have "Finite r = Finite (1 / 2)" using r(1) by (simp only: nth_replicate \<open>(0 :: nat) < 128\<close>)
  then have "r = 1 / 2" by (simp only: f64.inject)
  then have "\<bar>unpack bs ! 0 - 1 / 2\<bar> \<le> 1 / ((1 - 1 / 2 ^ 53) * 2 ^ 15)"
    using r(2) by (simp only:)
  then show ?thesis using h1 h3 bs by blast
qed

subsection \<open>The dispense loop\<close>

lemma report_dispensed_nil:
  "report_dispensed w tok [] = (Inr True, [Utc_now, Sleep 30, Log INFO ''No drug dispensing to report''])"
  by (simp add: report_dispensed_def res_defs)

lemma dispense_one_str:
  "subscript pres ''din'' = Inr (JStr s) \<Longrightarrow>
   dispense_one m pres dd =
     (Inr dd, if m s \<noteq> None
              then [Log INFO (''Attempting to dispense drug with DIN '' @ s), Call_dispense s,
                    Log INFO ''Drug dispense reported failure'']
              else [])"
  by (auto simp add: dispense_one_def dispense_def res_defs)

lemma for_prescriptions_result:
  "for_prescriptions m ps dd = (Inr dd', t) \<Longrightarrow> dd' = dd"
proof (induction ps arbitrary: dd dd' t)
  case Nil
  then show ?case by (simp add: ret_def)
next
  case (Cons p ps)
  show ?case
  proof (cases "dispense_one m p dd")
    case (Pair r t1)
    show ?thesis
    proof (cases r)
      case (Inl e)
      then show ?thesis using Cons.prems Pair by (simp add: bind_Inl)
    next
      case (Inr d1)
      have d1: "d1 = dd" using Pair Inr
        by (auto simp add: dispense_one_def dispense_def res_defs
            split: sum.splits json.splits if_splits option.splits)
      obtain r2 t2 where rest: "for_prescriptions m ps dd = (r2, t2)"
        by (cases "for_prescriptions m ps dd")
      have "r2 = Inr dd'" using Cons.prems Pair Inr d1 rest by (simp add: bind_Inr)
      then show ?thesis using rest Cons.IH [of dd dd' t2] by simp
    qed
  qed
qed

lemma no_task_in_dispense_one: "Create_task tok dd \<notin> set (snd (dispense_one m p d0))"
  by (auto simp add: dispense_one_def emit_def lift_def ret_def raise_def
      dest!: in_bind split: json.splits if_splits)

lemma no_task_in_loop: "Create_task tok dd \<notin> set (snd (for_prescriptions m ps d0))"
proof (induction ps arbitrary: d0)
  case Nil
  then show ?case by (simp add: ret_def)
next
  case (Cons p ps)
  show ?case
  proof
    assume "Create_task tok dd \<in> set (snd (for_prescriptions m (p # ps) d0))"
    then have "Create_task tok dd \<in> set (snd (bind (dispense_one m p d0) (for_prescriptions m ps)))"
      by simp
    from in_bind [OF this] show False
      using no_task_in_dispense_one Cons.IH by blast
  qed
qed

lemma no_task_in_capture: "Create_task tok dd \<notin> set (snd (capture_and_encode w))"
  by (auto simp add: capture_and_encode_def emit_def lift_def ret_def may_raise_def
      dest!: in_bind split: if_splits option.splits)

lemma no_task_in_authenticate: "Create_task tok dd \<notin> set (snd (authenticate w p))"
  by (auto simp add: authenticate_def emit_def lift_def ret_def may_raise_def
      dest!: in_bind split: if_splits option.splits)

lemma task_in_on_response:
  "Create_task tok dd \<in> set (snd (on_response m data w r)) \<Longrightarrow> dd = []"
  using no_task_in_loop [of tok dd m]
  by (auto simp add: on_response_def emit_def lift_def ret_def raise_def report_dispensed_nil
      dest!: in_bind split: if_splits option.splits)

lemma task_in_main_step:
  "Create_task tok dd \<in> set (snd (main_step m data w)) \<Longrightarrow> dd = []"
  using no_task_in_capture [of tok dd w] no_task_in_authenticate [of tok dd w] task_in_on_response [of tok dd m data w]
  by (auto simp add: main_step_def ret_def dest!: in_bind split: option.splits)



lemma on_response_unbound:
  "on_response m None w r = (if r = JNone then (Inr (), []) else (Inl NameError, []))"
  by (simp add: on_response_def ret_def raise_def)





text \<open>
  The loop itself keeps no record of the identifiers it has tried: run on a list that
  names a stocked identifier twice, it calls \<open>dispense\<close> twice.
\<close>

lemma for_prescriptions_repeats:
  "attempts ''02242705''
     (snd (for_prescriptions [''02242705'' \<mapsto> ''motor0'']
        [prescription ''02242705'', prescription ''02242705''] [])) = 2"
  by (simp add: attempts_def prescription_def dispense_one_def dispense_def res_defs)

text \<open>
  C5, as stated: \<open>dispense\<close> on a DIN that is not in the map returns \<open>False\<close> without
  an error. The lookup \<open>din_to_motor[din]\<close> raises \<open>KeyError\<close>.
\<close>

theorem dispense_absent_raises:
  "dispense Map.empty ''02242705'' = Inl KeyError"
  by (simp add: dispense_def)

text \<open>
  C5, amended: a DIN that is not in the map is skipped by the membership test of the
  loop, which does not call \<open>dispense\<close> for it: no attempt, no log entry, no error, and
  the list of dispensed drugs is unchanged. \<open>dispense\<close> itself raises \<open>KeyError\<close> for
  such a DIN.
\<close>

theorem absent_din_skipped:
  assumes "m s = None"
  shows "dispense m s = Inl KeyError \<and>
         (\<forall>pres dd. subscript pres ''din'' = Inr (JStr s) \<longrightarrow>
            dispense_one m pres dd = (Inr dd, []))"
  using assms dispense_one_str [of _ s m] by (simp add: dispense_def)

theorem absent_din_skipped_witness:
  "Map.empty ''02242705'' = (None :: string option) \<and>
   subscript (prescription ''02242705'') ''din'' = Inr (JStr ''02242705'') \<and>
   dispense Map.empty ''02242705'' = Inl KeyError \<and>
   dispense_one Map.empty (prescription ''02242705'') [''00000019''] = (Inr [''00000019''], [])"
proof -
  have h: "Map.empty ''02242705'' = (None :: string option)" by simp
  have p: "subscript (prescription ''02242705'') ''din'' = Inr (JStr ''02242705'')"
    by (simp add: prescription_def)
  show ?thesis using h p absent_din_skipped [OF h] by blast
qed

text \<open>
  C10. \<open>dispense\<close> returns \<open>False\<close> for every DIN in the map, so the loop never
  appends to the list of dispensed drugs: it ends with the list it started with. Every
  report task of an iteration is created with the empty list, and \<open>report_dispensed\<close>
  on the empty list takes the branch that logs and returns \<open>True\<close>.
\<close>

theorem dispense_never_succeeds:
  "(\<forall>din. m din \<noteq> None \<longrightarrow> dispense m din = Inr False) \<and>
   (\<forall>ps dd dd' t. for_prescriptions m ps dd = (Inr dd', t) \<longrightarrow> dd' = dd) \<and>
   (\<forall>data w tok dd. Create_task tok dd \<in> set (snd (main_step m data w)) \<longrightarrow>
      dd = [] \<and>
      report_dispensed w tok dd =
        (Inr True, [Utc_now, Sleep 30, Log INFO ''No drug dispensing to report'']))"
proof (intro conjI allI impI)
  fix din
  assume "m din \<noteq> None"
  then show "dispense m din = Inr False" by (auto simp add: dispense_def)
next
  fix ps dd dd' t
  assume "for_prescriptions m ps dd = (Inr dd', t)"
  then show "dd' = dd" by (rule for_prescriptions_result)
next
  fix data w tok dd
  assume "Create_task tok dd \<in> set (snd (main_step m data w))"
  then show "dd = []" by (rule task_in_main_step)
next
  fix data w tok dd
  assume "Create_task tok dd \<in> set (snd (main_step m data w))"
  then have "dd = []" by (rule task_in_main_step)
  then show "report_dispensed w tok dd =
        (Inr True, [Utc_now, Sleep 30, Log INFO ''No drug dispensing to report''])"
    by (simp add: report_dispensed_nil)
qed

theorem dispense_never_succeeds_witness:
  "[''02242705'' \<mapsto> ''motor0''] ''02242705'' \<noteq> None \<and>
   dispense [''02242705'' \<mapsto> ''motor0''] ''02242705'' = Inr False \<and>
   fst (for_prescriptions [''02242705'' \<mapsto> ''motor0''] [prescription ''02242705''] [])
     = Inr [] \<and>
   Create_task (JStr ''token'') [] \<in> set (snd (main_step [''02242705'' \<mapsto> ''motor0'']
        (Some (response_matched [prescription ''02242705'']))
        (world_with_response (response_matched [prescription ''02242705''])))) \<and>
   report_dispensed (world_with_response (response_matched [prescription ''02242705'']))
     (JStr ''token'') [] =
     (Inr True, [Utc_now, Sleep 30, Log INFO ''No drug dispensing to report''])"
proof -
  let ?m = "[''02242705'' \<mapsto> ''motor0'']"
  let ?r = "response_matched [prescription ''02242705'']"
  have h1: "?m ''02242705'' \<noteq> None" by simp
  have h2: "Create_task (JStr ''token'') [] \<in> set (snd (main_step ?m (Some ?r)
        (world_with_response ?r)))"
    by (simp add: prescription_def dispense_one_def dispense_def res_defs
      main_step_def capture_and_encode_def authenticate_def on_response_def
      world_with_response_def response_matched_def api_version_def pack_zero
      report_dispensed_nil)
  have h3: "fst (for_prescriptions ?m [prescription ''02242705''] []) = Inr []"
    by (simp add: prescription_def dispense_one_def dispense_def res_defs)
  from dispense_never_succeeds [of ?m] have
    a: "dispense ?m ''02242705'' = Inr False" and
    b: "report_dispensed (world_with_response ?r) (JStr ''token'') [] =
          (Inr True, [Utc_now, Sleep 30, Log INFO ''No drug dispensing to report''])"
    using h1 h2 by blast+
  show ?thesis using h1 h2 h3 a b by blast
qed

subsection \<open>The report task\<close>

text \<open>
  C4. The report is to be spawned as an independent task and not awaited. Line 204
  builds the task with \<open>asyncio.create_task\<close>, but the module never gets there: the
  guard of line 196 reads the unbound name \<open>data\<close>, so a matched response ends the
  iteration with \<open>NameError\<close> and no task is created in any iteration. Were \<open>data\<close>
  the response, line 204 would create the task before the loop and await it: its whole
  run, the 30 second sleep included, would precede the first dispense attempt.
\<close>

theorem report_task_never_created:
  "(\<forall>tok dd. Create_task tok dd \<notin> set (snd (main_step m None w))) \<and>
   fst (main_step m None
          (world_with_response (response_matched [prescription ''02242705''])))
     = Inl NameError \<and>
   snd (on_response [''02242705'' \<mapsto> ''motor0'']
          (Some (response_matched [prescription ''02242705'']))
          (world_with_response (response_matched [prescription ''02242705'']))
          (response_matched [prescription ''02242705''])) =
     [Log DEBUG ''Authenticated and prescription data acquired'',
      Create_task (JStr ''token'') [],
      Utc_now, Sleep 30, Log INFO ''No drug dispensing to report'',
      Log INFO ''Attempting to dispense drug with DIN 02242705'',
      Call_dispense ''02242705'',
      Log INFO ''Drug dispense reported failure'']"
proof (intro conjI allI)
  fix tok dd
  show "Create_task tok dd \<notin> set (snd (main_step m None w))"
    using no_task_in_capture [of tok dd w] no_task_in_authenticate [of tok dd w]
    by (auto simp add: main_step_def ret_def on_response_unbound
        dest!: in_bind split: option.splits if_splits)
next
  show "fst (main_step m None
          (world_with_response (response_matched [prescription ''02242705''])))
     = Inl NameError"
    by (simp add: main_step_def capture_and_encode_def authenticate_def on_response_unbound
        world_with_response_def response_matched_def res_defs pack_zero)
next
  show "snd (on_response [''02242705'' \<mapsto> ''motor0'']
          (Some (response_matched [prescription ''02242705'']))
          (world_with_response (response_matched [prescription ''02242705'']))
          (response_matched [prescription ''02242705''])) =
     [Log DEBUG ''Authenticated and prescription data acquired'',
      Create_task (JStr ''token'') [],
      Utc_now, Sleep 30, Log INFO ''No drug dispensing to report'',
      Log INFO ''Attempting to dispense drug with DIN 02242705'',
      Call_dispense ''02242705'',
      Log INFO ''Drug dispense reported failure'']"
    by (simp add: on_response_def response_matched_def prescription_def report_dispensed_nil
        dispense_one_def dispense_def api_version_def res_defs)
qed

text \<open>
  C9, as stated: with an empty list \<open>report_dispensed\<close> succeeds immediately. The test
  of the list comes after \<open>await asyncio.sleep(30)\<close>: the call sleeps 30 seconds and
  then returns \<open>True\<close>.
\<close>

theorem report_empty_sleeps_first:
  "report_dispensed (world_with_response JNone) (JStr ''token'') [] =
     (Inr True, [Utc_now, Sleep 30, Log INFO ''No drug dispensing to report''])"
  by (simp add: report_dispensed_def res_defs)

text \<open>
  C9, amended: with an empty list \<open>report_dispensed\<close> returns \<open>True\<close> without any
  network activity (no session, no request), after the 30 second delay that it always
  waits before it looks at the list.
\<close>

theorem report_dispensed_empty:
  "report_dispensed w tok [] =
     (Inr True, [Utc_now, Sleep 30, Log INFO ''No drug dispensing to report'']) \<and>
   Session_open \<notin> set (snd (report_dispensed w tok [])) \<and>
   (\<forall>url. Http_get url \<notin> set (snd (report_dispensed w tok [])))"
  by (simp add: report_dispensed_def res_defs)

subsection \<open>The main loop\<close>






text \<open>
  C1. A response with another version tag is not told apart from a response without a
  match. In the module as it stands the guard raises \<open>NameError\<close> on both (the name
  \<open>data\<close> is unbound), with the same trace; were \<open>data\<close> the response, the guard
  would be false on both and \<open>main_step\<close> would return \<open>None\<close> without a word.
  \<open>report_dispensed\<close>, lines 83 and 84, has a \<open>raise AssertionError\<close> for a wrong
  version tag.
\<close>

theorem version_mismatch_not_distinguished:
  "fst (main_step m None (world_with_response response_wrong_version)) = Inl NameError \<and>
   main_step m None (world_with_response response_wrong_version)
     = main_step m None (world_with_response response_no_match) \<and>
   fst (main_step m (Some response_wrong_version)
          (world_with_response response_wrong_version)) = Inr () \<and>
   main_step m (Some response_wrong_version) (world_with_response response_wrong_version)
     = main_step m (Some response_no_match) (world_with_response response_no_match)"
  by (simp add: main_step_def capture_and_encode_def authenticate_def on_response_def
    world_with_response_def response_wrong_version_def response_no_match_def res_defs
    api_version_def pack_zero)

end
